theory Spec2Isabelle
  imports Complex_Main "HOL-Library.Product_Lexorder"
begin

section \<open>The proxy record store (src/database.py)\<close>

text \<open>
  The table \<open>proxies\<close> of the SQLite database is a list of rows in insertion (rowid)
  order. The columns follow the \<open>CREATE TABLE\<close> statement of \<open>_init_database\<close>;
  the autoincremented \<open>id\<close> is left out, since no statement of the program reads it.
  A nullable column is an \<open>option\<close>. The counters only ever start at 0 and are
  incremented, so they are natural numbers. \<open>speed\<close> is the measured latency in
  seconds.

  A time stamp is the reading of a wall clock, counted in microseconds, as the text
  in the column spells it. Two clocks write into the table: \<open>datetime.now()\<close> of Python,
  which reads the local time of the host (\<open>last_checked\<close>, \<open>last_used\<close>), and the
  clock of SQLite, which reads UTC (\<open>created_at\<close>, and the cutoff of the pruning
  statement). At the instant \<open>t\<close> (in UTC) a host whose zone is \<open>tz\<close> microseconds
  ahead of UTC reads \<open>local_reading tz t\<close>.
\<close>

type_synonym timestamp = int

definition local_reading :: "int \<Rightarrow> timestamp \<Rightarrow> timestamp" where
  "local_reading tz t = t + tz"

record proxy =
  ip :: string
  port :: int
  protocol :: string
  country :: "string option"
  anonymity :: "string option"
  speed :: "real option"
  success_count :: nat
  fail_count :: nat
  last_checked :: timestamp
  last_used :: "timestamp option"
  is_active :: bool
  created_at :: timestamp

type_synonym db = "proxy list"

text \<open>
  A candidate is the dictionary that \<open>parse_proxy_string\<close> builds and that
  \<open>add_proxies_bulk\<close> reads with \<open>proxy.get\<close>: \<open>ip\<close> and \<open>port\<close> may be
  \<open>None\<close>, \<open>country\<close> and \<open>anonymity\<close> are absent from a parsed dictionary.
\<close>

record candidate =
  c_ip :: "string option"
  c_port :: "int option"
  c_protocol :: string
  c_country :: "string option"
  c_anonymity :: "string option"

text \<open>The dictionary \<open>dict(row)\<close> of the nine columns that \<open>get_active_proxies\<close> selects.\<close>

record selected =
  sel_ip :: string
  sel_port :: int
  sel_protocol :: string
  sel_country :: "string option"
  sel_anonymity :: "string option"
  sel_success_count :: nat
  sel_fail_count :: nat
  sel_last_used :: "timestamp option"
  sel_speed :: "real option"

datatype py_error = OverflowError | AttributeError

subsection \<open>SQL arithmetic\<close>

text \<open>
  \<open>CAST(a AS FLOAT) / b\<close> is NULL when \<open>b\<close> is 0, and a comparison with NULL does
  not hold in a WHERE clause. The quotient is taken exactly here; the source computes it
  in double precision, which decides the two comparisons below the same way as long as
  the counters stay below \<open>10^15\<close>.
\<close>

definition sql_ratio :: "nat \<Rightarrow> nat \<Rightarrow> real option" where
  "sql_ratio a b = (if b = 0 then None else Some (real a / real b))"

definition sql_gt :: "real option \<Rightarrow> real \<Rightarrow> bool" where
  "sql_gt q x = (case q of None \<Rightarrow> False | Some y \<Rightarrow> y > x)"

definition sql_ge :: "real option \<Rightarrow> real \<Rightarrow> bool" where
  "sql_ge q x = (case q of None \<Rightarrow> False | Some y \<Rightarrow> y \<ge> x)"

text \<open>A Python integer binds to an SQLite INTEGER only within 64 bits (signed).\<close>

definition sqlite_int :: "int \<Rightarrow> bool" where
  "sqlite_int n = (- (2 ^ 63) \<le> n \<and> n < 2 ^ 63)"

subsection \<open>Inserting\<close>

definition has_key :: "string \<Rightarrow> int \<Rightarrow> proxy \<Rightarrow> bool" where
  "has_key i p r = (ip r = i \<and> port r = p)"

definition new_row ::
  "timestamp \<Rightarrow> timestamp \<Rightarrow> string \<Rightarrow> int \<Rightarrow> string \<Rightarrow> string option \<Rightarrow> string option \<Rightarrow> proxy" where
  "new_row now utc i p proto ctry anon =
     \<lparr>ip = i, port = p, protocol = proto, country = ctry, anonymity = anon,
      speed = None, success_count = 0, fail_count = 0, last_checked = now,
      last_used = None, is_active = True, created_at = utc\<rparr>"

text \<open>
  \<open>INSERT OR IGNORE INTO proxies (ip, port, protocol, country, anonymity, last_checked)\<close>:
  binding a port outside 64 bits raises; a NULL in a NOT NULL column and a pair
  \<open>(ip, port)\<close> that is already there (UNIQUE) are skipped with row count 0; otherwise
  the row is appended with the column defaults. \<open>now\<close> is \<open>datetime.now()\<close>, \<open>utc\<close>
  the \<open>CURRENT_TIMESTAMP\<close> of the default of \<open>created_at\<close>. The result is the row
  count of the statement.
\<close>

definition insert_or_ignore ::
  "timestamp \<Rightarrow> timestamp \<Rightarrow> candidate \<Rightarrow> db \<Rightarrow> (py_error + nat) \<times> db" where
  "insert_or_ignore now utc c d =
     (case c_port c of
        None \<Rightarrow> (Inr 0, d)
      | Some p \<Rightarrow>
          if \<not> sqlite_int p then (Inl OverflowError, d)
          else (case c_ip c of
                  None \<Rightarrow> (Inr 0, d)
                | Some i \<Rightarrow>
                    if list_ex (has_key i p) d then (Inr 0, d)
                    else (Inr 1, d @ [new_row now utc i p (c_protocol c) (c_country c) (c_anonymity c)])))"

text \<open>
  \<open>add_proxy\<close>: one insertion in its own transaction; any exception is caught and
  reported as \<open>False\<close>.
\<close>

definition add_proxy ::
  "timestamp \<Rightarrow> timestamp \<Rightarrow> string \<Rightarrow> int \<Rightarrow> string \<Rightarrow> string option \<Rightarrow> string option \<Rightarrow> db
     \<Rightarrow> bool \<times> db" where
  "add_proxy now utc i p proto ctry anon d =
     (case insert_or_ignore now utc
             \<lparr>c_ip = Some i, c_port = Some p, c_protocol = proto, c_country = ctry, c_anonymity = anon\<rparr> d of
        (Inl e, d') \<Rightarrow> (False, d)
      | (Inr n, d') \<Rightarrow> (n > 0, d'))"

text \<open>
  \<open>add_proxies_bulk\<close>: the loop over the candidates, \<open>added\<close> being the accumulator.
  The clock is read once per row: \<open>now k\<close> and \<open>utc k\<close> are the readings when the
  candidate of index \<open>k\<close> is inserted. An exception skips the candidate.
\<close>

fun bulk_loop ::
  "(nat \<Rightarrow> timestamp) \<Rightarrow> (nat \<Rightarrow> timestamp) \<Rightarrow> nat \<Rightarrow> candidate list \<Rightarrow> nat \<Rightarrow> db \<Rightarrow> nat \<times> db" where
  "bulk_loop now utc k [] added d = (added, d)"
| "bulk_loop now utc k (c # cs) added d =
     (case insert_or_ignore (now k) (utc k) c d of
        (Inl e, d') \<Rightarrow> bulk_loop now utc (Suc k) cs added d
      | (Inr n, d') \<Rightarrow> bulk_loop now utc (Suc k) cs (if n > 0 then added + 1 else added) d')"

definition add_proxies_bulk ::
  "(nat \<Rightarrow> timestamp) \<Rightarrow> (nat \<Rightarrow> timestamp) \<Rightarrow> candidate list \<Rightarrow> db \<Rightarrow> nat \<times> db" where
  "add_proxies_bulk now utc cs d = bulk_loop now utc 0 cs 0 d"

subsection \<open>Recording outcomes\<close>

text \<open>
  An UPDATE with \<open>WHERE ip = ? AND port = ?\<close> rewrites every row with that key; a
  NULL parameter matches no row, and a port outside 64 bits raises at binding.
\<close>

definition update_where :: "(proxy \<Rightarrow> bool) \<Rightarrow> (proxy \<Rightarrow> proxy) \<Rightarrow> db \<Rightarrow> db" where
  "update_where cond f d = map (\<lambda>r. if cond r then f r else r) d"

definition update_proxy_success :: "timestamp \<Rightarrow> string \<Rightarrow> int \<Rightarrow> real option \<Rightarrow> db \<Rightarrow> db" where
  "update_proxy_success now i p response_time d =
     update_where (has_key i p)
       (\<lambda>r. r\<lparr>success_count := success_count r + 1, last_used := Some now,
              speed := response_time, is_active := True\<rparr>) d"

definition update_proxy_failure :: "timestamp \<Rightarrow> string \<Rightarrow> int \<Rightarrow> db \<Rightarrow> db" where
  "update_proxy_failure now i p d =
     (let d1 = update_where (has_key i p)
                 (\<lambda>r. r\<lparr>fail_count := fail_count r + 1, last_checked := now\<rparr>) d
      in update_where
           (\<lambda>r. has_key i p r \<and> fail_count r > 5 \<and>
                 (success_count r = 0 \<or>
                  sql_gt (sql_ratio (fail_count r) (success_count r + fail_count r)) (7 / 10)))
           (\<lambda>r. r\<lparr>is_active := False\<rparr>) d1)"

subsection \<open>Pruning\<close>

text \<open>
  \<open>DELETE ... WHERE is_active = 0 AND last_checked < datetime('now', '-' || days || ' days')\<close>.
  For a negative \<open>days\<close> the modifier reads \<open>--7 days\<close>, the cutoff is NULL and no row
  is deleted. \<open>utc\<close> is the reading of the database clock, in UTC, at the statement. The
  result is the row count and the remaining table. The statement compares the two
  texts as they are: \<open>last_checked\<close>, a local reading of the host, with a cutoff in
  UTC. No zone offset is applied, and none is applied here.
\<close>

definition day_us :: int where
  "day_us = 86400000000"

definition stale :: "int \<Rightarrow> timestamp \<Rightarrow> proxy \<Rightarrow> bool" where
  "stale days utc r = (0 \<le> days \<and> \<not> is_active r \<and> last_checked r < utc - days * day_us)"

definition remove_inactive_proxies :: "int \<Rightarrow> timestamp \<Rightarrow> db \<Rightarrow> nat \<times> db" where
  "remove_inactive_proxies days utc d =
     (length (filter (stale days utc) d), filter (\<lambda>r. \<not> stale days utc r) d)"

subsection \<open>Reading\<close>

text \<open>
  \<open>get_active_proxies\<close>: the active rows whose success rate reaches
  \<open>min_success_rate\<close>, a row without any outcome passing by the first disjunct;
  \<open>ORDER BY success_count DESC, fail_count ASC\<close> (rows with equal keys stay in table
  order); \<open>LIMIT\<close> is appended only \<open>if limit:\<close>, and a negative LIMIT is no limit
  in SQLite.
\<close>

definition qualifies :: "real \<Rightarrow> proxy \<Rightarrow> bool" where
  "qualifies min_success_rate r =
     (is_active r \<and>
      (success_count r + fail_count r = 0 \<or>
       sql_ge (sql_ratio (success_count r) (success_count r + fail_count r)) min_success_rate))"

definition order_key :: "proxy \<Rightarrow> int \<times> nat" where
  "order_key r = (- int (success_count r), fail_count r)"

definition select_row :: "proxy \<Rightarrow> selected" where
  "select_row r =
     \<lparr>sel_ip = ip r, sel_port = port r, sel_protocol = protocol r, sel_country = country r,
      sel_anonymity = anonymity r, sel_success_count = success_count r,
      sel_fail_count = fail_count r, sel_last_used = last_used r, sel_speed = speed r\<rparr>"

definition sql_limit :: "int option \<Rightarrow> 'a list \<Rightarrow> 'a list" where
  "sql_limit limit xs =
     (case limit of
        None \<Rightarrow> xs
      | Some l \<Rightarrow> if l = 0 then xs else if l < 0 then xs else take (nat l) xs)"

definition get_active_proxies :: "int option \<Rightarrow> real \<Rightarrow> db \<Rightarrow> selected list" where
  "get_active_proxies limit min_success_rate d =
     map select_row (sql_limit limit (sort_key order_key (filter (qualifies min_success_rate) d)))"

text \<open>
  \<open>get_stats\<close>. The average is taken over the rows with at least one outcome, 0 when
  there is none, and \<open>round(avg * 100, 2)\<close> rounds to two decimals, a tie to the even
  neighbour. The source rounds the double; the model rounds the exact value.
\<close>

record stats =
  total_proxies :: nat
  active_proxies :: nat
  inactive_proxies :: nat
  average_success_rate :: real

definition py_round2 :: "real \<Rightarrow> real" where
  "py_round2 x =
     (let y = x * 100; f = \<lfloor>y\<rfloor>; frac = y - of_int f
      in (if frac < 1 / 2 then of_int f
          else if frac > 1 / 2 then of_int f + 1
          else if even f then of_int f else of_int f + 1) / 100)"

definition avg_success_rate :: "db \<Rightarrow> real" where
  "avg_success_rate d =
     (let rs = filter (\<lambda>r. success_count r + fail_count r > 0) d
      in if rs = [] then 0
         else sum_list (map (\<lambda>r. real (success_count r) / real (success_count r + fail_count r)) rs)
              / real (length rs))"

definition get_stats :: "db \<Rightarrow> stats" where
  "get_stats d =
     (let total = length d; active = length (filter is_active d)
      in \<lparr>total_proxies = total, active_proxies = active, inactive_proxies = total - active,
          average_success_rate = py_round2 (avg_success_rate d * 100)\<rparr>)"

section \<open>Python strings\<close>

text \<open>
  A token is a list of characters; the functions below are the string methods of Python
  that the parser uses, on ASCII text.
\<close>

definition is_space :: "char \<Rightarrow> bool" where
  "is_space c = (let n = (of_char c :: nat) in (9 \<le> n \<and> n \<le> 13) \<or> (28 \<le> n \<and> n \<le> 32))"

definition is_digit :: "char \<Rightarrow> bool" where
  "is_digit c = (let n = (of_char c :: nat) in 48 \<le> n \<and> n \<le> 57)"

definition is_upper :: "char \<Rightarrow> bool" where
  "is_upper c = (let n = (of_char c :: nat) in 65 \<le> n \<and> n \<le> 90)"

definition is_lower :: "char \<Rightarrow> bool" where
  "is_lower c = (let n = (of_char c :: nat) in 97 \<le> n \<and> n \<le> 122)"

definition is_alpha :: "char \<Rightarrow> bool" where
  "is_alpha c = (is_upper c \<or> is_lower c)"

definition lower_char :: "char \<Rightarrow> char" where
  "lower_char c = (if is_upper c then char_of (of_char c + (32::nat)) else c)"

definition upper_char :: "char \<Rightarrow> char" where
  "upper_char c = (if is_lower c then char_of (of_char c - (32::nat)) else c)"

definition lower :: "string \<Rightarrow> string" where
  "lower s = map lower_char s"

definition upper :: "string \<Rightarrow> string" where
  "upper s = map upper_char s"

definition lstrip :: "string \<Rightarrow> string" where
  "lstrip s = dropWhile is_space s"

definition strip :: "string \<Rightarrow> string" where
  "strip s = rev (lstrip (rev (lstrip s)))"

text \<open>\<open>sub in s\<close>\<close>

fun contains :: "string \<Rightarrow> string \<Rightarrow> bool" where
  "contains sub [] = (sub = [])"
| "contains sub (c # cs) = (take (length sub) (c # cs) = sub \<or> contains sub cs)"

text \<open>\<open>s.split(sep)\<close> for a separator of one character: never empty.\<close>

fun split :: "char \<Rightarrow> string \<Rightarrow> string list" where
  "split sep [] = [Nil]"
| "split sep (c # cs) =
     (if c = sep then [] # split sep cs
      else (case split sep cs of [] \<Rightarrow> [c # Nil] | p # ps \<Rightarrow> (c # p) # ps))"

text \<open>\<open>s.partition(sep)[0]\<close>, \<open>s.partition(sep)[2]\<close> and \<open>s.rpartition(sep)[2]\<close>.\<close>

definition before_first :: "char \<Rightarrow> string \<Rightarrow> string" where
  "before_first sep s = takeWhile (\<lambda>c. c \<noteq> sep) s"

definition after_first :: "char \<Rightarrow> string \<Rightarrow> string" where
  "after_first sep s = drop 1 (dropWhile (\<lambda>c. c \<noteq> sep) s)"

definition after_last :: "char \<Rightarrow> string \<Rightarrow> string" where
  "after_last sep s = rev (takeWhile (\<lambda>c. c \<noteq> sep) (rev s))"

text \<open>
  \<open>int(s)\<close> in base 10: surrounding white space, one optional sign, then digits with
  single underscores between them. Digits outside ASCII and the interpreter's limit on
  the number of digits are not part of the model.
\<close>

fun int_body :: "string \<Rightarrow> bool" where
  "int_body [] = False"
| "int_body [c] = is_digit c"
| "int_body (c # d # cs) =
     (is_digit c \<and> (if d = CHR ''_'' then int_body cs else int_body (d # cs)))"

definition digit_value :: "char \<Rightarrow> int" where
  "digit_value c = of_char c - 48"

definition digits_value :: "string \<Rightarrow> int" where
  "digits_value s = foldl (\<lambda>acc c. 10 * acc + digit_value c) 0 (filter (\<lambda>c. c \<noteq> CHR ''_'') s)"

definition py_int :: "string \<Rightarrow> int option" where
  "py_int s =
     (case strip s of
        [] \<Rightarrow> None
      | c # cs \<Rightarrow>
          if c = CHR ''-'' then (if int_body cs then Some (- digits_value cs) else None)
          else if c = CHR ''+'' then (if int_body cs then Some (digits_value cs) else None)
          else if int_body (c # cs) then Some (digits_value (c # cs)) else None)"

section \<open>The parser (src/proxy_manager.py)\<close>

subsection \<open>\<open>urllib.parse.urlparse\<close>\<close>

text \<open>
  \<open>parse_proxy_string\<close> reads three attributes of \<open>urlparse(proxy_str)\<close>: \<open>scheme\<close>,
  \<open>hostname\<close> and \<open>port\<close>. The functions below follow \<open>urlsplit\<close> of CPython 3.12 on
  ASCII text, as far as these attributes go (path, query and fragment are not read).
  The validation of a host in brackets (\<open>_check_bracketed_host\<close>, which asks the
  \<open>ipaddress\<close> module) is the parameter \<open>bracketed_ok\<close>. \<open>None\<close> stands for the
  \<open>ValueError\<close> that the library raises.
\<close>

definition c0_or_space :: "char \<Rightarrow> bool" where
  "c0_or_space c = ((of_char c :: nat) \<le> 32)"

definition unsafe_byte :: "char \<Rightarrow> bool" where
  "unsafe_byte c = (let n = (of_char c :: nat) in n = 9 \<or> n = 10 \<or> n = 13)"

definition scheme_char :: "char \<Rightarrow> bool" where
  "scheme_char c = (is_alpha c \<or> is_digit c \<or> c = CHR ''+'' \<or> c = CHR ''-'' \<or> c = CHR ''.'')"

definition split_scheme :: "string \<Rightarrow> string \<times> string" where
  "split_scheme url =
     (let pre = before_first (CHR '':'') url
      in if CHR '':'' \<in> set url \<and> pre \<noteq> [] \<and> is_alpha (hd url) \<and> list_all scheme_char pre
         then (lower pre, after_first (CHR '':'') url)
         else ([], url))"

definition netloc_delim :: "char \<Rightarrow> bool" where
  "netloc_delim c = (c = CHR ''/'' \<or> c = CHR ''?'' \<or> c = CHR ''#'')"

definition split_netloc :: "string \<Rightarrow> string" where
  "split_netloc url =
     (if take 2 url = ''//'' then takeWhile (\<lambda>c. \<not> netloc_delim c) (drop 2 url) else [])"

definition urlsplit :: "(string \<Rightarrow> bool) \<Rightarrow> string \<Rightarrow> (string \<times> string) option" where
  "urlsplit bracketed_ok s =
     (let url = filter (\<lambda>c. \<not> unsafe_byte c) (dropWhile c0_or_space s);
          (scheme, rest) = split_scheme url;
          netloc = split_netloc rest;
          opn = (CHR ''['' \<in> set netloc);
          cls = (CHR '']'' \<in> set netloc)
      in if (opn \<and> \<not> cls) \<or> (cls \<and> \<not> opn) then None
         else if opn \<and> cls \<and>
                 \<not> bracketed_ok (before_first (CHR '']'') (after_first (CHR ''['') netloc))
         then None
         else Some (scheme, netloc))"

text \<open>\<open>_hostinfo\<close>: the host and the text of the port, \<open>None\<close> for an empty one.\<close>

definition hostinfo :: "string \<Rightarrow> string \<times> string option" where
  "hostinfo netloc =
     (let hi = after_last (CHR ''@'') netloc;
          (hostname, port_text) =
            (if CHR ''['' \<in> set hi
             then (let bracketed = after_first (CHR ''['') hi
                   in (before_first (CHR '']'') bracketed,
                       after_first (CHR '':'') (after_first (CHR '']'') bracketed)))
             else (before_first (CHR '':'') hi, after_first (CHR '':'') hi))
      in (hostname, if port_text = [] then None else Some port_text))"

text \<open>The attribute \<open>hostname\<close>: lower case up to a zone marker \<open>%\<close>, \<open>None\<close> when empty.\<close>

definition url_hostname :: "string \<Rightarrow> string option" where
  "url_hostname netloc =
     (let hostname = fst (hostinfo netloc)
      in if hostname = [] then None
         else Some (lower (before_first (CHR ''%'') hostname) @ dropWhile (\<lambda>c. c \<noteq> CHR ''%'') hostname))"

text \<open>
  The attribute \<open>port\<close>: the outer \<open>None\<close> is the \<open>ValueError\<close> for a port that is
  not all digits or lies outside \<open>0..65535\<close>, \<open>Some None\<close> a URL without port.
\<close>

definition url_port :: "string \<Rightarrow> int option option" where
  "url_port netloc =
     (case snd (hostinfo netloc) of
        None \<Rightarrow> Some None
      | Some t \<Rightarrow>
          if list_all is_digit t
          then (let n = digits_value t in if 0 \<le> n \<and> n \<le> 65535 then Some (Some n) else None)
          else None)"

subsection \<open>\<open>parse_proxy_string\<close>\<close>

text \<open>
  Every exception inside the function is caught and turned into \<open>None\<close>. The bare form
  is split at every colon and needs exactly two parts; the host is stripped and not
  looked at any further.
\<close>

definition parsed :: "string option \<Rightarrow> int option \<Rightarrow> string \<Rightarrow> candidate" where
  "parsed i p proto =
     \<lparr>c_ip = i, c_port = p, c_protocol = proto, c_country = None, c_anonymity = None\<rparr>"

definition parse_proxy_string :: "(string \<Rightarrow> bool) \<Rightarrow> string \<Rightarrow> candidate option" where
  "parse_proxy_string bracketed_ok proxy_str =
     (if contains ''://'' proxy_str
      then (case urlsplit bracketed_ok proxy_str of
              None \<Rightarrow> None
            | Some (scheme, netloc) \<Rightarrow>
                (case url_port netloc of
                   None \<Rightarrow> None
                 | Some p \<Rightarrow> Some (parsed (url_hostname netloc) p scheme)))
      else (let parts = split (CHR '':'') proxy_str
            in if length parts \<noteq> 2 then None
               else (case py_int (strip (parts ! 1)) of
                       None \<Rightarrow> None
                     | Some p \<Rightarrow> Some (parsed (Some (strip (parts ! 0))) (Some p) ''http''))))"

section \<open>The pool manager (src/proxy_manager.py)\<close>

text \<open>
  What one run observes of the outside world:
  \<^item> \<open>fetched\<close>: the list that \<open>fetch_all_proxies\<close> returns, the tokens of all
    sources merged, duplicates removed, in the order the set happens to have;
  \<^item> \<open>probe k\<close>: the request through the candidate of index \<open>k\<close> of the batch,
    \<open>Some t\<close> when the answer has status 200 (after \<open>t\<close> seconds), \<open>None\<close> for any
    other status, an exception or a timeout;
  \<^item> the zone of the host, \<open>tz_offset\<close>, and the instants (in UTC) of the clock
    readings: \<open>insert_utc k\<close> at the insertion of candidate \<open>k\<close>, \<open>outcome_utc k\<close> when
    its outcome is recorded, \<open>prune_utc\<close> at the pruning statement; \<open>time_start\<close> and
    \<open>time_end\<close> of \<open>time.time()\<close>;
  \<^item> \<open>rnd\<close>: the draw of \<open>random.choice\<close>;
  \<^item> \<open>bracketed_ok\<close>: the library's verdict on a host in brackets.
  The workers of the thread pool are taken one after the other, in the order of
  submission.
\<close>

record env =
  fetched :: "string list"
  probe :: "nat \<Rightarrow> real option"
  tz_offset :: int
  insert_utc :: "nat \<Rightarrow> timestamp"
  outcome_utc :: "nat \<Rightarrow> timestamp"
  prune_utc :: timestamp
  time_start :: real
  time_end :: real
  rnd :: nat
  bracketed_ok :: "string \<Rightarrow> bool"

text \<open>
  \<open>datetime.now()\<close> at the insertion of candidate \<open>k\<close> and when its outcome is
  recorded: the local reading of the host at that instant.
\<close>

definition insert_now :: "env \<Rightarrow> nat \<Rightarrow> timestamp" where
  "insert_now e k = local_reading (tz_offset e) (insert_utc e k)"

definition outcome_now :: "env \<Rightarrow> nat \<Rightarrow> timestamp" where
  "outcome_now e k = local_reading (tz_offset e) (outcome_utc e k)"

text \<open>
  The parameters \<open>ip\<close> and \<open>port\<close> of an UPDATE as they are bound: a port outside 64
  bits raises, a \<open>None\<close> is NULL and matches no row.
\<close>

definition bind_key :: "candidate \<Rightarrow> py_error + (string \<times> int) option" where
  "bind_key c =
     (case c_port c of
        None \<Rightarrow> Inr None
      | Some p \<Rightarrow>
          if \<not> sqlite_int p then Inl OverflowError
          else (case c_ip c of None \<Rightarrow> Inr None | Some i \<Rightarrow> Inr (Some (i, p))))"

text \<open>
  \<open>validate_proxy\<close>: on status 200 the success is recorded and the result is \<open>True\<close>;
  otherwise, and also when recording the success raised, the failure is recorded and
  the result is \<open>False\<close>. An exception of the last statement leaves the function.
\<close>

definition validate_proxy ::
  "real option \<Rightarrow> timestamp \<Rightarrow> candidate \<Rightarrow> db \<Rightarrow> (py_error + bool) \<times> db" where
  "validate_proxy outcome now c d =
     (case bind_key c of
        Inl e \<Rightarrow> (Inl e, d)
      | Inr None \<Rightarrow> (Inr (outcome \<noteq> None), d)
      | Inr (Some (i, p)) \<Rightarrow>
          (case outcome of
             Some response_time \<Rightarrow> (Inr True, update_proxy_success now i p (Some response_time) d)
           | None \<Rightarrow> (Inr False, update_proxy_failure now i p d)))"

text \<open>The loop over the futures: a result \<open>True\<close> counts, an exception is passed over.\<close>

fun validate_loop :: "env \<Rightarrow> nat \<Rightarrow> candidate list \<Rightarrow> nat \<Rightarrow> db \<Rightarrow> nat \<times> db" where
  "validate_loop e k [] valid_count d = (valid_count, d)"
| "validate_loop e k (c # cs) valid_count d =
     (case validate_proxy (probe e k) (outcome_now e k) c d of
        (Inr True, d') \<Rightarrow> validate_loop e (Suc k) cs (valid_count + 1) d'
      | (_, d') \<Rightarrow> validate_loop e (Suc k) cs valid_count d')"

definition parse_all :: "(string \<Rightarrow> bool) \<Rightarrow> string list \<Rightarrow> candidate list" where
  "parse_all ok proxy_list = List.map_filter (parse_proxy_string ok) proxy_list"

definition validate_proxies_batch :: "env \<Rightarrow> string list \<Rightarrow> db \<Rightarrow> nat \<times> db" where
  "validate_proxies_batch e proxy_list d =
     (let parsed_proxies = parse_all (bracketed_ok e) proxy_list;
          (added, d1) = add_proxies_bulk (insert_now e) (insert_utc e) parsed_proxies d
      in validate_loop e 0 (take 100 parsed_proxies) 0 d1)"

record report =
  success :: bool
  message :: "string option"
  valid_proxies :: "nat option"
  elapsed_time :: "real option"
  report_stats :: stats

definition refresh_proxy_pool :: "env \<Rightarrow> db \<Rightarrow> report \<times> db" where
  "refresh_proxy_pool e d =
     (let all_proxies = fetched e
      in if all_proxies = []
         then (\<lparr>success = False, message = Some ''No proxies fetched'', valid_proxies = None,
                 elapsed_time = None, report_stats = get_stats d\<rparr>, d)
         else (let (valid_count, d1) = validate_proxies_batch e all_proxies d;
                   (removed, d2) = remove_inactive_proxies 7 (prune_utc e) d1
               in (\<lparr>success = True, message = None, valid_proxies = Some valid_count,
                     elapsed_time = Some (time_end e - time_start e),
                     report_stats = get_stats d2\<rparr>, d2)))"

definition MIN_PROXIES :: nat where
  "MIN_PROXIES = 10"

definition get_proxy_pool :: "env \<Rightarrow> int option \<Rightarrow> real \<Rightarrow> db \<Rightarrow> selected list \<times> db" where
  "get_proxy_pool e limit min_success_rate d =
     (let proxies = get_active_proxies limit min_success_rate d
      in if length proxies < MIN_PROXIES
         then (let (rep, d') = refresh_proxy_pool e d
               in (get_active_proxies limit min_success_rate d', d'))
         else (proxies, d))"

text \<open>\<open>random.choice(xs)\<close> of a non-empty list.\<close>

definition random_choice :: "nat \<Rightarrow> 'a list \<Rightarrow> 'a" where
  "random_choice r xs = xs ! (r mod length xs)"

definition manager_get_random_proxy :: "env \<Rightarrow> db \<Rightarrow> selected option \<times> db" where
  "manager_get_random_proxy e d =
     (let (proxies, d') = get_proxy_pool e (Some 50) (1 / 2) d
      in if proxies \<noteq> [] then (Some (random_choice (rnd e) proxies), d') else (None, d'))"

section \<open>The provider (src/proxy_provider.py)\<close>

text \<open>\<open>xs[:n]\<close>: a negative \<open>n\<close> counts from the end.\<close>

definition slice_to :: "int \<Rightarrow> 'a list \<Rightarrow> 'a list" where
  "slice_to n xs = (if 0 \<le> n then take (nat n) xs else take (nat (int (length xs) + n)) xs)"

text \<open>
  \<open>get_proxies\<close>. A filter is applied when its argument is given and not empty. The
  country filter calls \<open>.upper()\<close> on the column value, which is \<open>None\<close> for a NULL
  column: the comprehension then raises \<open>AttributeError\<close>.
\<close>

definition truthy :: "string option \<Rightarrow> bool" where
  "truthy s = (case s of None \<Rightarrow> False | Some t \<Rightarrow> t \<noteq> [])"

definition filter_country :: "string \<Rightarrow> selected list \<Rightarrow> py_error + selected list" where
  "filter_country ctry proxies =
     (if list_ex (\<lambda>p. sel_country p = None) proxies then Inl AttributeError
      else Inr (filter (\<lambda>p. map_option upper (sel_country p) = Some (upper ctry)) proxies))"

definition filter_protocol :: "string \<Rightarrow> selected list \<Rightarrow> selected list" where
  "filter_protocol proto proxies = filter (\<lambda>p. lower (sel_protocol p) = lower proto) proxies"

definition get_proxies ::
  "env \<Rightarrow> int \<Rightarrow> real \<Rightarrow> string option \<Rightarrow> string option \<Rightarrow> db \<Rightarrow> (py_error + selected list) \<times> db" where
  "get_proxies e limit min_success_rate ctry proto d =
     (let (proxies, d') = get_proxy_pool e (Some (limit * 2)) min_success_rate d;
          by_country = (if truthy ctry then filter_country (the ctry) proxies else Inr proxies)
      in (case by_country of
            Inl err \<Rightarrow> (Inl err, d')
          | Inr ps \<Rightarrow>
              (Inr (slice_to limit (if truthy proto then filter_protocol (the proto) ps else ps)), d')))"

definition get_random_proxy :: "env \<Rightarrow> real \<Rightarrow> db \<Rightarrow> (py_error + selected option) \<times> db" where
  "get_random_proxy e min_success_rate d =
     (case get_proxies e 50 min_success_rate None None d of
        (Inl err, d') \<Rightarrow> (Inl err, d')
      | (Inr proxies, d') \<Rightarrow>
          if proxies \<noteq> [] then (Inr (Some (random_choice (rnd e) proxies)), d') else (Inr None, d'))"

definition get_best_proxies :: "env \<Rightarrow> int \<Rightarrow> db \<Rightarrow> (py_error + selected list) \<times> db" where
  "get_best_proxies e limit d = get_proxies e limit (7 / 10) None None d"

section \<open>Notions used in the statements\<close>

text \<open>
  The rule of \<open>update_proxy_failure\<close> as the specification words it, and the invariant
  of the table: a row is inactive only if the rule holds of its counters, and no two
  rows have the same \<open>(ip, port)\<close>. Every operation of the store keeps the invariant
  (lemmas \<open>store_inv_Nil\<close>, \<open>store_inv_add\<close>, \<open>store_inv_bulk\<close>, \<open>store_inv_success\<close>,
  \<open>store_inv_failure\<close>, \<open>store_inv_prune\<close>).
\<close>

definition deactivation_rule :: "proxy \<Rightarrow> bool" where
  "deactivation_rule r =
     (fail_count r > 5 \<and> real (fail_count r) / real (success_count r + fail_count r) > 7 / 10)"

definition row_ok :: "proxy \<Rightarrow> bool" where
  "row_ok r = (is_active r \<or> deactivation_rule r)"

definition key_of :: "proxy \<Rightarrow> string \<times> int" where
  "key_of r = (ip r, port r)"

definition store_inv :: "db \<Rightarrow> bool" where
  "store_inv d = (list_all row_ok d \<and> distinct (map key_of d))"






text \<open>
  The instant (in UTC) at which a row was last checked, on a host whose zone is \<open>tz\<close>:
  the inverse of \<open>local_reading\<close> on the column \<open>last_checked\<close>.
\<close>

definition checked_instant :: "int \<Rightarrow> proxy \<Rightarrow> timestamp" where
  "checked_instant tz r = last_checked r - tz"

text \<open>Rows and observations for the examples; the host of \<open>demo_env\<close> keeps UTC.\<close>

definition demo_row :: "string \<Rightarrow> int \<Rightarrow> nat \<Rightarrow> nat \<Rightarrow> bool \<Rightarrow> timestamp \<Rightarrow> proxy" where
  "demo_row i p s f a t =
     (new_row t t i p ''http'' None None)\<lparr>success_count := s, fail_count := f, is_active := a\<rparr>"

definition demo_env :: "string list \<Rightarrow> (nat \<Rightarrow> real option) \<Rightarrow> env" where
  "demo_env toks outcome =
     \<lparr>fetched = toks, probe = outcome, tz_offset = 0, insert_utc = (\<lambda>k. 100),
      outcome_utc = (\<lambda>k. 200), prune_utc = 300, time_start = 1, time_end = 2, rnd = 0,
      bracketed_ok = (\<lambda>h. True)\<rparr>"

section \<open>The store keeps its invariant\<close>

lemma ratio_gt_iff:
  "0 < s + f \<Longrightarrow> (real f / real (s + f) > 7 / 10) = (7 * (s + f) < 10 * f)"
proof -
  assume pos: "0 < s + f"
  have rpos: "0 < real (s + f)" using pos by (simp only: of_nat_0_less_iff)
  have "(real f / real (s + f) > 7 / 10) = (7 / 10 * real (s + f) < real f)"
    by (rule pos_less_divide_eq [OF rpos])
  also have "\<dots> = (7 * real (s + f) < 10 * real f)" by simp
  also have "\<dots> = (real (7 * (s + f)) < real (10 * f))" by simp
  also have "\<dots> = (7 * (s + f) < 10 * f)" by (simp only: of_nat_less_iff)
  finally show ?thesis .
qed

lemma failure_condition:
  "(fail_count r > 5 \<and> (success_count r = 0 \<or>
       sql_gt (sql_ratio (fail_count r) (success_count r + fail_count r)) (7 / 10)))
   = deactivation_rule r"
  by (auto simp: deactivation_rule_def sql_gt_def sql_ratio_def)

lemma find_update_where:
  "find c (update_where (\<lambda>r. c r \<and> g r) f d) =
     map_option (\<lambda>r. if g r then f r else r) (find c d)" if "\<And>r. c (f r) = c r"
  using that by (induction d) (auto simp: update_where_def)

lemma find_update_where_key:
  "(\<And>r. c (f r) = c r) \<Longrightarrow> find c (update_where c f d) = map_option f (find c d)"
  by (induction d) (auto simp: update_where_def)

lemma deactivation_rule_iff:
  "deactivation_rule r =
     (5 < fail_count r \<and> 7 * (success_count r + fail_count r) < 10 * fail_count r)"
proof (cases "0 < success_count r + fail_count r")
  case True
  then show ?thesis unfolding deactivation_rule_def by (simp only: ratio_gt_iff)
next
  case False
  then show ?thesis by (simp add: deactivation_rule_def)
qed

lemma has_key_fail [simp]:
  "has_key i p (r\<lparr>fail_count := a, last_checked := b\<rparr>) = has_key i p r"
  by (simp add: has_key_def)

lemma has_key_inactive [simp]: "has_key i p (r\<lparr>is_active := a\<rparr>) = has_key i p r"
  by (simp add: has_key_def)

lemma has_key_success [simp]:
  "has_key i p (r\<lparr>success_count := a, last_used := b, speed := c, is_active := e\<rparr>) = has_key i p r"
  by (simp add: has_key_def)

lemma deactivation_rule_active [simp]:
  "deactivation_rule (r\<lparr>is_active := b\<rparr>) = deactivation_rule r"
  by (simp add: deactivation_rule_def)

lemma deactivation_rule_step:
  "deactivation_rule r \<Longrightarrow>
   deactivation_rule (r\<lparr>fail_count := fail_count r + 1, last_checked := now\<rparr>)"
  by (simp add: deactivation_rule_iff)

lemma find_update_failure:
  "find (has_key i p) (update_proxy_failure now i p d) =
     map_option (\<lambda>r. if deactivation_rule r then r\<lparr>is_active := False\<rparr> else r)
       (map_option (\<lambda>r. r\<lparr>fail_count := fail_count r + 1, last_checked := now\<rparr>)
          (find (has_key i p) d))"
  unfolding update_proxy_failure_def Let_def failure_condition
  by (simp add: find_update_where find_update_where_key)

lemma find_update_success:
  "find (has_key i p) (update_proxy_success now i p t d) =
     map_option (\<lambda>r. r\<lparr>success_count := success_count r + 1, last_used := Some now,
              speed := t, is_active := True\<rparr>) (find (has_key i p) d)"
  unfolding update_proxy_success_def
  by (rule find_update_where_key) (simp add: has_key_def)

lemma row_ok_new [simp]: "row_ok (new_row now utc i p proto c a)"
  by (simp add: row_ok_def new_row_def)

lemma key_of_new [simp]: "key_of (new_row now utc i p proto c a) = (i, p)"
  by (simp add: key_of_def new_row_def)

lemma key_in_iff: "((i, p) \<in> key_of ` set d) = list_ex (has_key i p) d"
  by (force simp: list_ex_iff key_of_def has_key_def image_iff)

lemma insert_or_ignore_cases:
  assumes "insert_or_ignore now utc c d = (res, d')"
  shows "(d' = d \<and> (res = Inr 0 \<or> res = Inl OverflowError)) \<or>
     (\<exists>i p. c_ip c = Some i \<and> c_port c = Some p \<and> sqlite_int p \<and> \<not> list_ex (has_key i p) d
        \<and> res = Inr 1
        \<and> d' = d @ [new_row now utc i p (c_protocol c) (c_country c) (c_anonymity c)])"
  using assms by (auto simp: insert_or_ignore_def split: option.splits if_splits)

lemma insert_or_ignore_present:
  assumes "c_ip c = Some i" "c_port c = Some p" "list_ex (has_key i p) d"
  shows "insert_or_ignore now utc c d = (Inr 0, d) \<or>
         insert_or_ignore now utc c d = (Inl OverflowError, d)"
  using assms by (simp add: insert_or_ignore_def)

lemma store_inv_append_new:
  assumes "store_inv d" "\<not> list_ex (has_key i p) d"
  shows "store_inv (d @ [new_row now utc i p proto c a])"
  using assms by (simp add: store_inv_def key_in_iff)

lemma store_inv_Nil: "store_inv []"
  by (simp add: store_inv_def)

lemma bulk_loop_appends:
  "\<exists>new. bulk_loop now utc k cs added d = (added + length new, d @ new)
         \<and> (\<forall>r\<in>set new. \<not> list_ex (has_key (ip r) (port r)) d)
         \<and> (\<forall>r\<in>set new. is_active r \<and> success_count r = 0 \<and> fail_count r = 0)
         \<and> (distinct (map key_of d) \<longrightarrow> distinct (map key_of (d @ new)))"
proof (induction cs arbitrary: k added d)
  case Nil
  show ?case by simp
next
  case (Cons c cs)
  obtain res d' where ins: "insert_or_ignore (now k) (utc k) c d = (res, d')"
    by (cases "insert_or_ignore (now k) (utc k) c d")
  from insert_or_ignore_cases [OF ins] consider
    (same) "d' = d" "res = Inr 0 \<or> res = Inl OverflowError"
  | (fresh) i p where "\<not> list_ex (has_key i p) d" "res = Inr 1"
      "d' = d @ [new_row (now k) (utc k) i p (c_protocol c) (c_country c) (c_anonymity c)]"
    by blast
  then show ?case
  proof cases
    case same
    from same(2) same(1) ins have "bulk_loop now utc k (c # cs) added d = bulk_loop now utc (Suc k) cs added d"
      by auto
    with Cons.IH [of "Suc k" added d] show ?thesis by simp
  next
    case (fresh i p)
    note res = fresh(2) and d' = fresh(3)
    let ?row = "new_row (now k) (utc k) i p (c_protocol c) (c_country c) (c_anonymity c)"
    from res ins have step: "bulk_loop now utc k (c # cs) added d = bulk_loop now utc (Suc k) cs (added + 1) d'"
      by simp
    from Cons.IH [of "Suc k" "added + 1" d'] obtain new where
      new: "bulk_loop now utc (Suc k) cs (added + 1) d' = (added + 1 + length new, d' @ new)"
        "\<forall>r\<in>set new. \<not> list_ex (has_key (ip r) (port r)) d'"
        "\<forall>r\<in>set new. is_active r \<and> success_count r = 0 \<and> fail_count r = 0"
        "distinct (map key_of d') \<longrightarrow> distinct (map key_of (d' @ new))"
      by blast
    have row_key: "\<not> list_ex (has_key (ip ?row) (port ?row)) d"
      using fresh(1) by (simp add: new_row_def)
    have row_fresh: "is_active ?row \<and> success_count ?row = 0 \<and> fail_count ?row = 0"
      by (simp add: new_row_def)
    have "bulk_loop now utc k (c # cs) added d = (added + length (?row # new), d @ (?row # new))"
      using step new(1) d' by simp
    moreover have "\<forall>r\<in>set (?row # new). \<not> list_ex (has_key (ip r) (port r)) d"
      using new(2) row_key d' by (auto simp: list_ex_iff)
    moreover have "\<forall>r\<in>set (?row # new). is_active r \<and> success_count r = 0 \<and> fail_count r = 0"
      using new(3) row_fresh by simp
    moreover have "distinct (map key_of d) \<longrightarrow> distinct (map key_of (d @ (?row # new)))"
      using new(4) d' fresh(1) by (simp add: key_in_iff)
    ultimately show ?thesis by blast
  qed
qed

lemma bulk_loop_all_present:
  assumes "\<forall>c\<in>set cs. \<exists>i p. c_ip c = Some i \<and> c_port c = Some p \<and> list_ex (has_key i p) d"
  shows "bulk_loop now utc k cs added d = (added, d)"
  using assms
proof (induction cs arbitrary: k)
  case Nil
  show ?case by simp
next
  case (Cons c cs)
  then obtain i p where "c_ip c = Some i" "c_port c = Some p" "list_ex (has_key i p) d"
    by auto
  from insert_or_ignore_present [OF this, of "now k" "utc k"] Cons show ?case
    by auto
qed

lemma store_inv_bulk:
  assumes "store_inv d"
  shows "store_inv (snd (add_proxies_bulk nows utcs cs d))"
proof -
  obtain new where new: "bulk_loop nows utcs 0 cs 0 d = (0 + length new, d @ new)"
      "\<forall>r\<in>set new. is_active r \<and> success_count r = 0 \<and> fail_count r = 0"
      "distinct (map key_of d) \<longrightarrow> distinct (map key_of (d @ new))"
    using bulk_loop_appends [of nows utcs 0 cs 0 d] by blast
  then show ?thesis
    using assms by (auto simp: add_proxies_bulk_def store_inv_def list_all_iff row_ok_def)
qed

lemma store_inv_add:
  assumes "store_inv d"
  shows "store_inv (snd (add_proxy now utc i p proto ctry anon d))"
  using assms store_inv_append_new [OF assms, of i p now utc proto ctry anon]
  by (auto simp: add_proxy_def insert_or_ignore_def)

lemma key_of_update_where:
  "(\<And>r. key_of (f r) = key_of r) \<Longrightarrow> map key_of (update_where c f d) = map key_of d"
  by (simp add: update_where_def)

lemma store_inv_success:
  assumes "store_inv d"
  shows "store_inv (update_proxy_success now i p t d)"
proof -
  have keys: "map key_of (update_proxy_success now i p t d) = map key_of d"
    unfolding update_proxy_success_def
    by (rule key_of_update_where) (simp add: key_of_def)
  have "list_all row_ok (update_proxy_success now i p t d)"
    using assms
    by (auto simp: store_inv_def update_proxy_success_def list_all_iff update_where_def row_ok_def)
  then show ?thesis
    using assms keys by (simp add: store_inv_def)
qed

lemma store_inv_failure:
  assumes "store_inv d"
  shows "store_inv (update_proxy_failure now i p d)"
proof -
  have k1: "key_of (r\<lparr>fail_count := a, last_checked := b\<rparr>) = key_of r" for r a b
    by (simp add: key_of_def)
  have k2: "key_of (r\<lparr>is_active := a\<rparr>) = key_of r" for r a
    by (simp add: key_of_def)
  have keys: "map key_of (update_proxy_failure now i p d) = map key_of d"
    by (simp add: update_proxy_failure_def Let_def key_of_update_where k1 k2)
  have "row_ok r'" if "r' \<in> set (update_proxy_failure now i p d)" for r'
  proof -
    from that obtain r where r: "r \<in> set d" and r': "r' =
        (let r1 = (if has_key i p r then r\<lparr>fail_count := fail_count r + 1, last_checked := now\<rparr> else r)
         in if has_key i p r1 \<and> deactivation_rule r1 then r1\<lparr>is_active := False\<rparr> else r1)"
      unfolding update_proxy_failure_def Let_def failure_condition update_where_def
      by auto
    have ok: "is_active r \<or> deactivation_rule r"
      using assms r by (auto simp: store_inv_def list_all_iff row_ok_def)
    show ?thesis
    proof (cases "has_key i p r")
      case False
      then show ?thesis using ok r' by (simp add: row_ok_def)
    next
      case True
      then show ?thesis
        using ok r' deactivation_rule_step [of r now]
        by (auto simp: row_ok_def Let_def)
    qed
  qed
  then show ?thesis
    using assms keys by (simp add: store_inv_def list_all_iff)
qed

lemma store_inv_prune:
  assumes "store_inv d"
  shows "store_inv (snd (remove_inactive_proxies days utc d))"
  using assms
  by (auto simp: store_inv_def remove_inactive_proxies_def list_all_iff distinct_map_filter)

section \<open>A run on fresh candidates\<close>

lemma parse_tokens:
  "parse_proxy_string ok ''1.2.3.4:8080'' = Some (parsed (Some ''1.2.3.4'') (Some 8080) ''http'')"
  "parse_proxy_string ok ''bad-token'' = None"
  "parse_proxy_string ok ''5.6.7.8:3128'' = Some (parsed (Some ''5.6.7.8'') (Some 3128) ''http'')"
  by code_simp+



lemma update_proxy_failure_Nil [simp]: "update_proxy_failure now i p [] = []"
  by (simp add: update_proxy_failure_def update_where_def)










section \<open>What the selector returns\<close>

lemma set_sql_limit: "set (sql_limit l xs) \<subseteq> set xs"
  by (auto simp: sql_limit_def split: option.splits dest: in_set_takeD)

lemma set_get_active:
  "x \<in> set (get_active_proxies l m d) \<Longrightarrow> \<exists>r\<in>set d. qualifies m r \<and> x = select_row r"
  using set_sql_limit [of l "sort_key order_key (filter (qualifies m) d)"]
  by (auto simp: get_active_proxies_def)

lemma get_active_empty_iff:
  "0 < l \<Longrightarrow> (get_active_proxies (Some l) m d = []) = (filter (qualifies m) d = [])"
  by (auto simp: get_active_proxies_def sql_limit_def take_eq_Nil simp flip: length_0_conv)

lemma length_get_active:
  "0 < l \<Longrightarrow> length (get_active_proxies (Some l) m d) \<le> nat l"
  by (simp add: get_active_proxies_def sql_limit_def)

lemma get_proxy_pool_is_query:
  "fst (get_proxy_pool e l m d) = get_active_proxies l m (snd (get_proxy_pool e l m d))"
  by (simp add: get_proxy_pool_def Let_def split: prod.splits)



lemma set_slice_to: "set (slice_to n xs) \<subseteq> set xs"
  by (auto simp: slice_to_def dest: in_set_takeD)




lemma random_choice_mem: "xs \<noteq> [] \<Longrightarrow> random_choice k xs \<in> set xs"
  by (simp add: random_choice_def)

lemma get_proxies_plain:
  "get_proxies e limit m None None d =
     (Inr (slice_to limit (fst (get_proxy_pool e (Some (limit * 2)) m d))),
      snd (get_proxy_pool e (Some (limit * 2)) m d))"
  by (simp add: get_proxies_def truthy_def split: prod.splits)

lemma slice_to_empty_iff: "0 < n \<Longrightarrow> (slice_to n xs = []) = (xs = [])"
  by (simp add: slice_to_def take_eq_Nil)

lemma get_proxy_pool_no_fetch:
  "fetched e = [] \<Longrightarrow> get_proxy_pool e l m d = (get_active_proxies l m d, d)"
  by (simp add: get_proxy_pool_def refresh_proxy_pool_def Let_def)


lemma get_random_proxy_unfold:
  "get_random_proxy e m d =
      (if slice_to 50 (fst (get_proxy_pool e (Some 100) m d)) \<noteq> []
       then (Inr (Some (random_choice (rnd e) (slice_to 50 (fst (get_proxy_pool e (Some 100) m d))))),
             snd (get_proxy_pool e (Some 100) m d))
       else (Inr None, snd (get_proxy_pool e (Some 100) m d)))"
  by (simp add: get_random_proxy_def get_proxies_plain)

lemma manager_get_random_proxy_unfold:
  "manager_get_random_proxy e d =
      (if fst (get_proxy_pool e (Some 50) (1 / 2) d) \<noteq> []
       then (Some (random_choice (rnd e) (fst (get_proxy_pool e (Some 50) (1 / 2) d))),
             snd (get_proxy_pool e (Some 50) (1 / 2) d))
       else (None, snd (get_proxy_pool e (Some 50) (1 / 2) d)))"
  by (simp add: manager_get_random_proxy_def split: prod.splits)


lemma pool_pick:
  assumes "0 < l" and sub: "set xs \<subseteq> set (fst (get_proxy_pool e (Some l) m d))" and "xs \<noteq> []"
  shows "\<exists>r\<in>set (snd (get_proxy_pool e (Some l) m d)). qualifies m r \<and> random_choice k xs = select_row r"
proof -
  have "random_choice k xs \<in> set xs"
    using assms(3) by (rule random_choice_mem)
  with sub have "random_choice k xs \<in> set (fst (get_proxy_pool e (Some l) m d))"
    by (rule subsetD)
  then have "random_choice k xs \<in> set (get_active_proxies (Some l) m (snd (get_proxy_pool e (Some l) m d)))"
    by (subst (asm) get_proxy_pool_is_query)
  then show ?thesis by (rule set_get_active)
qed

lemma pool_empty:
  assumes "0 < l" and "fst (get_proxy_pool e (Some l) m d) = []"
  shows "filter (qualifies m) (snd (get_proxy_pool e (Some l) m d)) = []"
proof -
  have "get_active_proxies (Some l) m (snd (get_proxy_pool e (Some l) m d)) = []"
    using assms(2) by (subst (asm) get_proxy_pool_is_query)
  then show ?thesis
    by (simp only: get_active_empty_iff [OF assms(1)])
qed

lemma refresh_one_success:
  "refresh_proxy_pool (demo_env [''1.2.3.4:8080''] (\<lambda>k. Some 1)) [] =
     (\<lparr>success = True, message = None, valid_proxies = Some 1, elapsed_time = Some 1,
       report_stats = \<lparr>total_proxies = 1, active_proxies = 1, inactive_proxies = 0,
                        average_success_rate = 100\<rparr>\<rparr>,
      [(new_row 100 100 ''1.2.3.4'' 8080 ''http'' None None)
         \<lparr>success_count := 1, last_used := Some 200, speed := Some 1\<rparr>])"
  by (simp add: refresh_proxy_pool_def demo_env_def insert_now_def outcome_now_def
        local_reading_def validate_proxies_batch_def parse_all_def
        List.map_filter_simps parse_tokens add_proxies_bulk_def insert_or_ignore_def parsed_def
        sqlite_int_def validate_proxy_def bind_key_def update_proxy_success_def update_where_def
        has_key_def new_row_def remove_inactive_proxies_def stale_def get_stats_def
        avg_success_rate_def py_round2_def)

lemma rnd_demo_env [simp]: "rnd (demo_env toks outcome) = 0"
  by (simp add: demo_env_def)

section \<open>The parser on the two shapes of a token\<close>



lemma length_split: "length (split sep s) = Suc (count_list s sep)"
  by (induction s) (auto split: list.splits)

lemma split_nonempty: "split sep s \<noteq> []"
  using length_split [of sep s] by auto


lemma count_decomp: "sep \<notin> set a \<Longrightarrow> sep \<notin> set b \<Longrightarrow> count_list (a @ sep # b) sep = 1"
  by (simp add: count_list_0_iff)





lemma after_first_none: "sep \<notin> set a \<Longrightarrow> after_first sep a = []"
  by (induction a) (auto simp: after_first_def)






lemma lstrip_Nil [simp]: "lstrip [] = []"
  by (simp add: lstrip_def)

lemma lstrip_fixed: "s = [] \<or> \<not> is_space (hd s) \<Longrightarrow> lstrip s = s"
  by (cases s) (auto simp: lstrip_def)

lemma lstrip_head: "lstrip s = [] \<or> \<not> is_space (hd (lstrip s))"
  unfolding lstrip_def using hd_dropWhile [of is_space s] by blast


lemma strip_ends:
  "strip s = [] \<or> (\<not> is_space (hd (strip s)) \<and> \<not> is_space (last (strip s)))"
proof (cases "strip s = []")
  case True
  then show ?thesis by simp
next
  case False
  let ?t = "lstrip s" and ?u = "lstrip (rev (lstrip s))"
  have u: "?u \<noteq> []" using False by (simp add: strip_def)
  have st: "strip s = rev ?u" by (simp add: strip_def)
  have "\<not> is_space (hd ?u)" using lstrip_head [of "rev ?t"] u by simp
  then have l: "\<not> is_space (last (strip s))" using u by (simp add: st last_rev)
  have tne: "?t \<noteq> []"
  proof
    assume "?t = []"
    then have "?u = []" by simp
    with u show False by simp
  qed
  have "rev ?t = takeWhile is_space (rev ?t) @ ?u" by (simp add: lstrip_def)
  then have "last (rev ?t) = last ?u" using u by (metis last_appendR)
  then have "hd ?t = last ?u" using tne by (simp add: last_rev)
  then have "hd (strip s) = hd ?t" using u by (simp add: st hd_rev)
  moreover have "\<not> is_space (hd ?t)" using lstrip_head [of s] tne by simp
  ultimately show ?thesis using l by simp
qed

lemma strip_fixed:
  assumes "s = [] \<or> (\<not> is_space (hd s) \<and> \<not> is_space (last s))"
  shows "strip s = s"
proof (cases "s = []")
  case True
  then show ?thesis by (simp add: strip_def lstrip_def)
next
  case False
  with assms have h: "\<not> is_space (hd s)" and l: "\<not> is_space (last s)" by auto
  have 1: "lstrip s = s" using h by (simp add: lstrip_fixed)
  have "\<not> is_space (hd (rev s))" using l False by (simp add: hd_rev)
  then have 2: "lstrip (rev s) = rev s" by (simp add: lstrip_fixed)
  show ?thesis by (simp add: strip_def 1 2)
qed

lemma strip_strip [simp]: "strip (strip s) = strip s"
  by (rule strip_fixed) (rule strip_ends)

lemma py_int_strip [simp]: "py_int (strip s) = py_int s"
  by (simp add: py_int_def)













































section \<open>Claims about the store\<close>

text \<open>
  Claim C1. In a table that satisfies the invariant, take the row with key \<open>(i, p)\<close>.
  After \<open>update_proxy_failure\<close> its failure counter is one higher, and the row is
  inactive if and only if, for the new counters, \<open>fail_count > 5\<close> and
  \<open>fail_count / (success_count + fail_count) > 0.7\<close>. After \<open>update_proxy_success\<close> the
  row with that key is active, whatever it was before.
\<close>

theorem failure_deactivates_iff:
  assumes inv: "store_inv d" and row: "find (has_key i p) d = Some r"
  shows "(\<exists>r'. find (has_key i p) (update_proxy_failure now i p d) = Some r'
           \<and> fail_count r' = fail_count r + 1 \<and> success_count r' = success_count r
           \<and> (\<not> is_active r' \<longleftrightarrow>
                5 < fail_count r' \<and>
                real (fail_count r') / real (success_count r' + fail_count r') > 7 / 10))
         \<and> (find (has_key i p) dd = Some q \<longrightarrow>
              (\<exists>q'. find (has_key i p) (update_proxy_success nowb i p t dd) = Some q'
                    \<and> is_active q' \<and> success_count q' = success_count q + 1))"
proof -
  define r1 where "r1 = r\<lparr>fail_count := fail_count r + 1, last_checked := now\<rparr>"
  define r' where "r' = (if deactivation_rule r1 then r1\<lparr>is_active := False\<rparr> else r1)"
  have ok: "is_active r \<or> deactivation_rule r"
    using inv row by (auto simp: store_inv_def list_all_iff find_Some_iff row_ok_def)
  have found: "find (has_key i p) (update_proxy_failure now i p d) = Some r'"
    using row by (simp add: find_update_failure r'_def r1_def)
  have counts: "fail_count r' = fail_count r + 1" "success_count r' = success_count r"
    by (simp_all add: r'_def r1_def)
  have "(\<not> is_active r') = deactivation_rule r'"
  proof (cases "deactivation_rule r1")
    case True
    then show ?thesis by (simp add: r'_def)
  next
    case False
    then have "\<not> deactivation_rule r"
      using deactivation_rule_step [of r now] by (auto simp: r1_def)
    with ok have "is_active r" by simp
    then have "is_active r1" by (simp add: r1_def)
    with False show ?thesis by (simp add: r'_def)
  qed
  then have "\<not> is_active r' \<longleftrightarrow>
                5 < fail_count r' \<and>
                real (fail_count r') / real (success_count r' + fail_count r') > 7 / 10"
    unfolding deactivation_rule_def .
  with found counts have first: "\<exists>r'. find (has_key i p) (update_proxy_failure now i p d) = Some r'
           \<and> fail_count r' = fail_count r + 1 \<and> success_count r' = success_count r
           \<and> (\<not> is_active r' \<longleftrightarrow>
                5 < fail_count r' \<and>
                real (fail_count r') / real (success_count r' + fail_count r') > 7 / 10)"
    by blast
  have second: "find (has_key i p) dd = Some q \<longrightarrow>
              (\<exists>q'. find (has_key i p) (update_proxy_success nowb i p t dd) = Some q'
                    \<and> is_active q' \<and> success_count q' = success_count q + 1)"
    by (simp add: find_update_success)
  from first second show ?thesis by blast
qed

theorem failure_deactivates_iff_witness:
  "store_inv [demo_row ''1.2.3.4'' 8080 0 5 True 7]
   \<and> find (has_key ''1.2.3.4'' 8080) [demo_row ''1.2.3.4'' 8080 0 5 True 7]
       = Some (demo_row ''1.2.3.4'' 8080 0 5 True 7)
   \<and> (\<exists>r'. find (has_key ''1.2.3.4'' 8080)
              (update_proxy_failure 9 ''1.2.3.4'' 8080 [demo_row ''1.2.3.4'' 8080 0 5 True 7]) = Some r'
         \<and> fail_count r' = 6 \<and> \<not> is_active r')
   \<and> (\<exists>q'. find (has_key ''1.2.3.4'' 8080)
              (update_proxy_success 11 ''1.2.3.4'' 8080 (Some 1)
                 [demo_row ''1.2.3.4'' 8080 0 6 False 9]) = Some q'
         \<and> is_active q' \<and> success_count q' = 1)"
proof -
  have inv: "store_inv [demo_row ''1.2.3.4'' 8080 0 5 True 7]"
    by (simp add: store_inv_def row_ok_def demo_row_def new_row_def)
  have row: "find (has_key ''1.2.3.4'' 8080) [demo_row ''1.2.3.4'' 8080 0 5 True 7]
       = Some (demo_row ''1.2.3.4'' 8080 0 5 True 7)"
    by (simp add: has_key_def demo_row_def new_row_def)
  have row2: "find (has_key ''1.2.3.4'' 8080) [demo_row ''1.2.3.4'' 8080 0 6 False 9]
       = Some (demo_row ''1.2.3.4'' 8080 0 6 False 9)"
    by (simp add: has_key_def demo_row_def new_row_def)
  have fc: "fail_count (demo_row ''1.2.3.4'' 8080 0 5 True 7) = 5"
       "success_count (demo_row ''1.2.3.4'' 8080 0 5 True 7) = 0"
       "success_count (demo_row ''1.2.3.4'' 8080 0 6 False 9) = 0"
    by (simp_all add: demo_row_def new_row_def)
  show ?thesis
    using inv row row2 fc
      failure_deactivates_iff [OF inv row, where dd = "[demo_row ''1.2.3.4'' 8080 0 6 False 9]"
        and q = "demo_row ''1.2.3.4'' 8080 0 6 False 9" and now = 9 and nowb = 11 and t = "Some 1"]
    by auto
qed

text \<open>
  Claim C7. Adding a pair \<open>(ip, port)\<close> that the table already holds changes nothing:
  \<open>add_proxy\<close> answers \<open>False\<close> and returns the table as it was, and
  \<open>add_proxies_bulk\<close> of candidates that are all present answers 0 and returns the
  table as it was. In general \<open>add_proxies_bulk\<close> only appends rows: the old rows stay
  in place unchanged, the count is the number of appended rows, none of them has a key
  of the old table, and keys stay unique.
\<close>

theorem readd_is_noop:
  "(list_ex (has_key i p) d \<longrightarrow> add_proxy now utc i p proto ctry anon d = (False, d))
   \<and> ((\<forall>c\<in>set cs. \<exists>a b. c_ip c = Some a \<and> c_port c = Some b \<and> list_ex (has_key a b) d)
        \<longrightarrow> add_proxies_bulk nows utcs cs d = (0, d))
   \<and> (\<exists>new. add_proxies_bulk nows utcs cs' d = (length new, d @ new)
          \<and> (\<forall>r\<in>set new. \<not> list_ex (has_key (ip r) (port r)) d)
          \<and> (distinct (map key_of d) \<longrightarrow> distinct (map key_of (d @ new))))"
proof (intro conjI impI)
  assume "list_ex (has_key i p) d"
  then show "add_proxy now utc i p proto ctry anon d = (False, d)"
    by (simp add: add_proxy_def insert_or_ignore_def)
next
  assume "\<forall>c\<in>set cs. \<exists>a b. c_ip c = Some a \<and> c_port c = Some b \<and> list_ex (has_key a b) d"
  then show "add_proxies_bulk nows utcs cs d = (0, d)"
    unfolding add_proxies_bulk_def by (rule bulk_loop_all_present)
next
  show "\<exists>new. add_proxies_bulk nows utcs cs' d = (length new, d @ new)
          \<and> (\<forall>r\<in>set new. \<not> list_ex (has_key (ip r) (port r)) d)
          \<and> (distinct (map key_of d) \<longrightarrow> distinct (map key_of (d @ new)))"
    unfolding add_proxies_bulk_def
    using bulk_loop_appends [of nows utcs 0 cs' 0 d] by auto
qed

theorem readd_is_noop_witness:
  "add_proxy 50 50 ''1.2.3.4'' 8080 ''https'' (Some ''US'') None [demo_row ''1.2.3.4'' 8080 3 1 True 7]
     = (False, [demo_row ''1.2.3.4'' 8080 3 1 True 7])
   \<and> add_proxies_bulk (\<lambda>k. 50) (\<lambda>k. 50) [parsed (Some ''1.2.3.4'') (Some 8080) ''http'']
        [demo_row ''1.2.3.4'' 8080 3 1 True 7]
     = (0, [demo_row ''1.2.3.4'' 8080 3 1 True 7])
   \<and> add_proxies_bulk (\<lambda>k. 50) (\<lambda>k. 50)
        [parsed (Some ''1.2.3.4'') (Some 8080) ''http'', parsed (Some ''5.6.7.8'') (Some 3128) ''http'']
        [demo_row ''1.2.3.4'' 8080 3 1 True 7]
     = (1, [demo_row ''1.2.3.4'' 8080 3 1 True 7, new_row 50 50 ''5.6.7.8'' 3128 ''http'' None None])"
proof -
  have present: "list_ex (has_key ''1.2.3.4'' 8080) [demo_row ''1.2.3.4'' 8080 3 1 True 7]"
    by (simp add: has_key_def demo_row_def new_row_def)
  have absent: "\<not> list_ex (has_key ''5.6.7.8'' 3128) [demo_row ''1.2.3.4'' 8080 3 1 True 7]"
    by (simp add: has_key_def demo_row_def new_row_def)
  have third: "add_proxies_bulk (\<lambda>k. 50) (\<lambda>k. 50)
        [parsed (Some ''1.2.3.4'') (Some 8080) ''http'', parsed (Some ''5.6.7.8'') (Some 3128) ''http'']
        [demo_row ''1.2.3.4'' 8080 3 1 True 7]
     = (1, [demo_row ''1.2.3.4'' 8080 3 1 True 7, new_row 50 50 ''5.6.7.8'' 3128 ''http'' None None])"
    using present absent
    by (simp add: add_proxies_bulk_def insert_or_ignore_def parsed_def sqlite_int_def)
  show ?thesis
    using present third
      readd_is_noop [where i = "''1.2.3.4''" and p = 8080
        and d = "[demo_row ''1.2.3.4'' 8080 3 1 True 7]" and now = 50 and utc = 50
        and proto = "''https''" and ctry = "Some ''US''" and anon = None
        and cs = "[parsed (Some ''1.2.3.4'') (Some 8080) ''http'']"
        and nows = "\<lambda>k. 50" and utcs = "\<lambda>k. 50"]
    by (simp add: parsed_def)
qed


text \<open>
  What the DELETE does, for every table: it removes the inactive rows whose stored
  reading of \<open>last_checked\<close> is below the cutoff, counts them, and leaves the other
  rows in place.
\<close>

lemma remove_inactive_by_reading:
  "remove_inactive_proxies 7 utc d =
     (length (filter (\<lambda>r. \<not> is_active r \<and> last_checked r < utc - 7 * 86400000000) d),
      filter (\<lambda>r. is_active r \<or> utc - 7 * 86400000000 \<le> last_checked r) d)"
proof -
  have st: "stale 7 utc r = (\<not> is_active r \<and> last_checked r < utc - 7 * 86400000000)" for r
    by (simp add: stale_def day_us_def)
  show ?thesis
    unfolding remove_inactive_proxies_def st by (simp add: not_less)
qed

text \<open>
  The stored reading is a local one. A row last checked at the instant \<open>t\<close> on a host
  whose zone is \<open>tz\<close> is deleted when it is inactive and \<open>t\<close> lies before the cutoff
  moved by the zone offset: the window is 7 days only for \<open>tz = 0\<close>.
\<close>

lemma stale_by_instant:
  "stale 7 utc (r\<lparr>last_checked := local_reading tz t\<rparr>) =
     (\<not> is_active r \<and> t < utc - 7 * day_us - tz)"
  by (auto simp: stale_def local_reading_def)

text \<open>
  Claim C8. The specification has \<open>remove_inactive_proxies\<close> with 7 days delete exactly
  the inactive rows last checked more than 7 days ago, every inactive row checked
  within the last 7 days staying in the table. The code compares the local reading
  in \<open>last_checked\<close> with a cutoff in UTC, and on a host that does not keep UTC it
  deletes and keeps other rows.

  On a host five hours behind UTC, a row with five failures fails once more at the
  instant 262800000000: it becomes inactive and its column holds the reading
  244800000000. The pruning runs at 864000000000, which is 6 days and 23 hours
  later; its cutoff is 259200000000, and the row is deleted although it was checked
  within the last 7 days.

  On a host nine hours ahead of UTC, a row that fails in the same way at the instant
  255600000000, which is 7 days and 1 hour before the same pruning, holds the reading
  288000000000 and stays in the table.
\<close>

theorem prune_zone_failing_input:
  "(let d = update_proxy_failure (local_reading (- 18000000000) 262800000000) ''1.2.3.4'' 8080
              [demo_row ''1.2.3.4'' 8080 0 5 True 0]
    in map is_active d = [False]
     \<and> map last_checked d = [244800000000]
     \<and> map (checked_instant (- 18000000000)) d = [262800000000]
     \<and> 864000000000 - 7 * day_us < 262800000000
     \<and> remove_inactive_proxies 7 864000000000 d = (1, []))
   \<and> (let d = update_proxy_failure (local_reading 32400000000 255600000000) ''5.6.7.8'' 8080
                 [demo_row ''5.6.7.8'' 8080 0 5 True 0]
       in map is_active d = [False]
        \<and> map last_checked d = [288000000000]
        \<and> map (checked_instant 32400000000) d = [255600000000]
        \<and> 255600000000 < 864000000000 - 7 * day_us
        \<and> remove_inactive_proxies 7 864000000000 d = (0, d))"
  by (simp add: Let_def update_proxy_failure_def update_where_def has_key_def demo_row_def
        new_row_def local_reading_def checked_instant_def day_us_def remove_inactive_proxies_def
        stale_def)

section \<open>Claims about a refresh run\<close>

text \<open>
  Claim C5. When \<open>fetch_all_proxies\<close> returns no candidate, \<open>refresh_proxy_pool\<close>
  returns at once: the report has \<open>success = False\<close> and the statistics of the table as
  it is, and the table is returned as it was, so no row is created, changed or deleted.
\<close>

theorem refresh_empty_is_failure:
  assumes "fetched e = []"
  shows "refresh_proxy_pool e d =
     (\<lparr>success = False, message = Some ''No proxies fetched'', valid_proxies = None,
       elapsed_time = None, report_stats = get_stats d\<rparr>, d)"
  using assms by (simp add: refresh_proxy_pool_def)

theorem refresh_empty_is_failure_witness:
  "fetched (demo_env [] (\<lambda>k. None)) = []
   \<and> snd (refresh_proxy_pool (demo_env [] (\<lambda>k. None)) [demo_row ''1.2.3.4'' 8080 3 1 True 7])
       = [demo_row ''1.2.3.4'' 8080 3 1 True 7]
   \<and> success (fst (refresh_proxy_pool (demo_env [] (\<lambda>k. None)) [demo_row ''1.2.3.4'' 8080 3 1 True 7]))
       = False
   \<and> total_proxies (report_stats
        (fst (refresh_proxy_pool (demo_env [] (\<lambda>k. None)) [demo_row ''1.2.3.4'' 8080 3 1 True 7]))) = 1"
proof -
  have empty: "fetched (demo_env [] (\<lambda>k. None)) = []"
    by (simp add: demo_env_def)
  show ?thesis
    using empty refresh_empty_is_failure [OF empty, of "[demo_row ''1.2.3.4'' 8080 3 1 True 7]"]
    by (simp add: get_stats_def)
qed





text \<open>
  What the success path writes, for every candidate that has a row: the result is
  \<open>True\<close>, and \<open>success_count\<close>, \<open>last_used\<close>, \<open>speed\<close> and \<open>is_active\<close> of the row are
  set. These are the four columns of the UPDATE; \<open>last_checked\<close> is not among them.
\<close>

lemma validate_ok_writes:
  assumes "c_ip c = Some i" and "c_port c = Some p" and "sqlite_int p"
    and "find (has_key i p) d = Some r"
  shows "fst (validate_proxy (Some t) now c d) = Inr True
       \<and> find (has_key i p) (snd (validate_proxy (Some t) now c d)) =
           Some (r\<lparr>success_count := success_count r + 1, last_used := Some now,
                   speed := Some t, is_active := True\<rparr>)
       \<and> map last_checked (snd (validate_proxy (Some t) now c d)) = map last_checked d
       \<and> map key_of (snd (validate_proxy (Some t) now c d)) = map key_of d"
proof -
  have v: "validate_proxy (Some t) now c d = (Inr True, update_proxy_success now i p (Some t) d)"
    using assms(1-3) by (simp add: validate_proxy_def bind_key_def)
  have lc: "map last_checked (update_proxy_success now i p (Some t) d) = map last_checked d"
    by (simp add: update_proxy_success_def update_where_def)
  have ks: "map key_of (update_proxy_success now i p (Some t) d) = map key_of d"
    unfolding update_proxy_success_def
    by (rule key_of_update_where) (simp add: key_of_def)
  show ?thesis
    unfolding v using assms(4) by (simp add: find_update_success lc ks)
qed

text \<open>
  Claim C6. The specification has a probe answered with status 200 increment
  \<open>success_count\<close>, set the latency and \<open>is_active\<close>, and update \<open>last_validated\<close>, the
  column \<open>last_checked\<close>, to the time of the probe. The code does the first three and
  leaves \<open>last_checked\<close> as it was.

  A row is inserted at the reading 100 and its probe answers 200 after half a second,
  recorded at the reading 200. \<open>validate_proxy\<close> returns \<open>True\<close>; afterwards
  \<open>success_count\<close> is 1, \<open>speed\<close> is 1/2 and the row is active, but \<open>last_checked\<close> is
  still 100: the reading 200 went into \<open>last_used\<close>. The same probe failing at the
  reading 200 does set \<open>last_checked\<close> to 200.
\<close>

theorem validated_ok_stale_last_checked:
  "snd (add_proxy 100 100 ''1.2.3.4'' 8080 ''http'' None None [])
     = [new_row 100 100 ''1.2.3.4'' 8080 ''http'' None None]
   \<and> fst (validate_proxy (Some (1 / 2)) 200 (parsed (Some ''1.2.3.4'') (Some 8080) ''http'')
          [new_row 100 100 ''1.2.3.4'' 8080 ''http'' None None]) = Inr True
   \<and> map success_count
        (snd (validate_proxy (Some (1 / 2)) 200 (parsed (Some ''1.2.3.4'') (Some 8080) ''http'')
           [new_row 100 100 ''1.2.3.4'' 8080 ''http'' None None])) = [1]
   \<and> map speed
        (snd (validate_proxy (Some (1 / 2)) 200 (parsed (Some ''1.2.3.4'') (Some 8080) ''http'')
           [new_row 100 100 ''1.2.3.4'' 8080 ''http'' None None])) = [Some (1 / 2)]
   \<and> map is_active
        (snd (validate_proxy (Some (1 / 2)) 200 (parsed (Some ''1.2.3.4'') (Some 8080) ''http'')
           [new_row 100 100 ''1.2.3.4'' 8080 ''http'' None None])) = [True]
   \<and> map last_checked
        (snd (validate_proxy (Some (1 / 2)) 200 (parsed (Some ''1.2.3.4'') (Some 8080) ''http'')
           [new_row 100 100 ''1.2.3.4'' 8080 ''http'' None None])) = [100]
   \<and> map last_used
        (snd (validate_proxy (Some (1 / 2)) 200 (parsed (Some ''1.2.3.4'') (Some 8080) ''http'')
           [new_row 100 100 ''1.2.3.4'' 8080 ''http'' None None])) = [Some 200]
   \<and> map last_checked
        (snd (validate_proxy None 200 (parsed (Some ''1.2.3.4'') (Some 8080) ''http'')
           [new_row 100 100 ''1.2.3.4'' 8080 ''http'' None None])) = [200]
   \<and> (100 :: timestamp) \<noteq> 200"
  by (simp add: add_proxy_def insert_or_ignore_def validate_proxy_def bind_key_def parsed_def
        sqlite_int_def update_proxy_success_def update_proxy_failure_def update_where_def
        has_key_def new_row_def)

section \<open>Claims about the selector\<close>




text \<open>
  Claim C9, as the code has it. \<open>get_random_proxy\<close>, of the provider and of the
  manager, never raises. It first lets \<open>get_proxy_pool\<close> refresh a pool of fewer than
  \<open>MIN_PROXIES\<close> records, and then returns \<open>None\<close> exactly when no row of the table as
  it is after that refresh qualifies; otherwise it returns the selection of a row that
  qualifies. In particular it returns \<open>None\<close>, and leaves the table alone, when no row
  qualifies and the refresh fetches no candidate.
\<close>

theorem random_proxy_absent_iff:
  "(case fst (get_random_proxy e m d) of
      Inl err \<Rightarrow> False
    | Inr None \<Rightarrow> filter (qualifies m) (snd (get_random_proxy e m d)) = []
    | Inr (Some x) \<Rightarrow> \<exists>r\<in>set (snd (get_random_proxy e m d)). qualifies m r \<and> x = select_row r)
   \<and> (fetched e = [] \<and> filter (qualifies m) d = [] \<longrightarrow> get_random_proxy e m d = (Inr None, d))
   \<and> (case fst (manager_get_random_proxy e d) of
        None \<Rightarrow> filter (qualifies (1 / 2)) (snd (manager_get_random_proxy e d)) = []
      | Some x \<Rightarrow> \<exists>r\<in>set (snd (manager_get_random_proxy e d)). qualifies (1 / 2) r \<and> x = select_row r)
   \<and> (fetched e = [] \<and> filter (qualifies (1 / 2)) d = [] \<longrightarrow> manager_get_random_proxy e d = (None, d))"
proof (intro conjI impI)
  let ?pool = "fst (get_proxy_pool e (Some 100) m d)"
  show "case fst (get_random_proxy e m d) of
      Inl err \<Rightarrow> False
    | Inr None \<Rightarrow> filter (qualifies m) (snd (get_random_proxy e m d)) = []
    | Inr (Some x) \<Rightarrow> \<exists>r\<in>set (snd (get_random_proxy e m d)). qualifies m r \<and> x = select_row r"
  proof (cases "slice_to 50 ?pool = []")
    case True
    then have "?pool = []" by (simp add: slice_to_empty_iff)
    then have "filter (qualifies m) (snd (get_proxy_pool e (Some 100) m d)) = []"
      by (rule pool_empty [rotated]) simp
    with True show ?thesis by (simp add: get_random_proxy_unfold)
  next
    case False
    have "\<exists>r\<in>set (snd (get_proxy_pool e (Some 100) m d)). qualifies m r
           \<and> random_choice (rnd e) (slice_to 50 ?pool) = select_row r"
      by (rule pool_pick [OF _ set_slice_to False]) simp
    with False show ?thesis by (simp add: get_random_proxy_unfold)
  qed
next
  assume "fetched e = [] \<and> filter (qualifies m) d = []"
  then show "get_random_proxy e m d = (Inr None, d)"
    by (simp add: get_random_proxy_unfold get_proxy_pool_no_fetch
          get_active_proxies_def sql_limit_def slice_to_def)
next
  let ?pool = "fst (get_proxy_pool e (Some 50) (1 / 2) d)"
  show "case fst (manager_get_random_proxy e d) of
        None \<Rightarrow> filter (qualifies (1 / 2)) (snd (manager_get_random_proxy e d)) = []
      | Some x \<Rightarrow> \<exists>r\<in>set (snd (manager_get_random_proxy e d)). qualifies (1 / 2) r \<and> x = select_row r"
  proof (cases "?pool = []")
    case True
    then have "filter (qualifies (1 / 2)) (snd (get_proxy_pool e (Some 50) (1 / 2) d)) = []"
      by (rule pool_empty [rotated]) simp
    with True show ?thesis by (simp add: manager_get_random_proxy_unfold)
  next
    case False
    have "\<exists>r\<in>set (snd (get_proxy_pool e (Some 50) (1 / 2) d)). qualifies (1 / 2) r
           \<and> random_choice (rnd e) ?pool = select_row r"
      by (rule pool_pick [OF _ subset_refl False]) simp
    with False show ?thesis by (simp add: manager_get_random_proxy_unfold)
  qed
next
  assume "fetched e = [] \<and> filter (qualifies (1 / 2)) d = []"
  then show "manager_get_random_proxy e d = (None, d)"
    by (simp add: manager_get_random_proxy_unfold get_proxy_pool_no_fetch
          get_active_proxies_def sql_limit_def)
qed


theorem random_proxy_absent_iff_witness:
  "fetched (demo_env [] (\<lambda>k. None)) = []
   \<and> filter (qualifies (1 / 2)) [demo_row ''1.2.3.4'' 8080 1 3 True 7] = []
   \<and> get_random_proxy (demo_env [] (\<lambda>k. None)) (1 / 2) [demo_row ''1.2.3.4'' 8080 1 3 True 7]
       = (Inr None, [demo_row ''1.2.3.4'' 8080 1 3 True 7])
   \<and> manager_get_random_proxy (demo_env [] (\<lambda>k. None)) [demo_row ''1.2.3.4'' 8080 1 3 True 7]
       = (None, [demo_row ''1.2.3.4'' 8080 1 3 True 7])"
proof -
  have h: "fetched (demo_env [] (\<lambda>k. None)) = []"
       "filter (qualifies (1 / 2)) [demo_row ''1.2.3.4'' 8080 1 3 True 7] = []"
    by (simp_all add: demo_env_def qualifies_def sql_ge_def sql_ratio_def demo_row_def new_row_def)
  from random_proxy_absent_iff [where e = "demo_env [] (\<lambda>k. None)" and m = "1 / 2"
      and d = "[demo_row ''1.2.3.4'' 8080 1 3 True 7]"] h
  show ?thesis by (simp only: simp_thms)
qed

text \<open>
  The claim as the specification has it speaks of the table before the call. On the
  empty table, where no record qualifies, a refresh that fetches \<open>1.2.3.4:8080\<close> and
  validates it makes \<open>get_random_proxy\<close> return that proxy, not \<open>None\<close>.
\<close>

theorem random_proxy_refresh_counterexample:
  "filter (qualifies (1 / 2)) [] = []
   \<and> fst (get_random_proxy (demo_env [''1.2.3.4:8080''] (\<lambda>k. Some 1)) (1 / 2) [])
       = Inr (Some \<lparr>sel_ip = ''1.2.3.4'', sel_port = 8080, sel_protocol = ''http'',
                    sel_country = None, sel_anonymity = None, sel_success_count = 1,
                    sel_fail_count = 0, sel_last_used = Some 200, sel_speed = Some 1\<rparr>)"
  by (simp add: get_random_proxy_unfold get_proxy_pool_def get_active_proxies_def sql_limit_def
        MIN_PROXIES_def refresh_one_success qualifies_def sql_ge_def sql_ratio_def slice_to_def
        random_choice_def select_row_def new_row_def)

section \<open>Claims about the parser\<close>






end
